theory Spec2Isabelle
  imports Complex_Main
begin

section \<open>Numbers and vectors\<close>

text \<open>
  The program is JavaScript on top of the three.js library. Every JavaScript number is
  modelled as a mathematical \<open>real\<close>: rounding of doubles, the single-precision
  storage of a \<open>Float32Array\<close>, \<open>NaN\<close> and the infinities are outside the model.
  \<open>Math.random()\<close> is an explicit source \<open>rs :: nat \<Rightarrow> real\<close> read at a cursor
  that advances by one per call; \<open>Date.now()\<close> is an explicit argument \<open>now\<close>.

  A \<open>THREE.Vector3\<close> is a record of three reals. The few Vector3 methods the program
  calls are library code; they are written out here with the arithmetic the library
  documents for them.

  Where JavaScript would produce an infinity or \<open>NaN\<close> the model has HOL's total
  functions instead: a quotient by zero is 0 and \<open>arccos\<close> outside \<open>[-1, 1]\<close> is
  some real. This concerns the life ratio of a particle whose maximum age is 0, the
  perspective divide of \<open>applyMatrix4\<close> and the polar angle of a respawned eruption
  particle. No pool the program builds has a maximum age of 0 (the source draws it from
  \<open>[0.5, 0.6)\<close> for the exhaust and from \<open>[1, 4)\<close> for the eruption), the world
  matrix of the ship is affine, and the argument of \<open>arccos\<close> is \<open>2 * r - 1\<close> for a
  random number \<open>r\<close> in \<open>[0, 1)\<close>.
\<close>

record vec3 =
  x :: real
  y :: real
  z :: real

definition vec :: "real \<Rightarrow> real \<Rightarrow> real \<Rightarrow> vec3" where
  "vec a b c = \<lparr>x = a, y = b, z = c\<rparr>"

definition vlength :: "vec3 \<Rightarrow> real" where
  "vlength v = sqrt (x v * x v + y v * y v + z v * z v)"

definition negate :: "vec3 \<Rightarrow> vec3" where
  "negate v = vec (- x v) (- y v) (- z v)"

definition addScaledVector :: "vec3 \<Rightarrow> vec3 \<Rightarrow> real \<Rightarrow> vec3" where
  "addScaledVector p v s = vec (x p + x v * s) (y p + y v * s) (z p + z v * s)"

definition crossVectors :: "vec3 \<Rightarrow> vec3 \<Rightarrow> vec3" where
  "crossVectors a b =
     vec (y a * z b - z a * y b) (z a * x b - x a * z b) (x a * y b - y a * x b)"

definition normalize_vec :: "vec3 \<Rightarrow> vec3" where
  "normalize_vec v =
     (let l = (if vlength v = 0 then 1 else vlength v)
      in vec (x v / l) (y v / l) (z v / l))"

definition lerp :: "vec3 \<Rightarrow> vec3 \<Rightarrow> real \<Rightarrow> vec3" where
  "lerp p v alpha =
     vec (x p + (x v - x p) * alpha) (y p + (y v - y p) * alpha) (z p + (z v - z p) * alpha)"

section \<open>Orbits of the planets and the moon (index.js, animate)\<close>

definition AU_SCALE :: real where "AU_SCALE = 400"
definition MERCURY_AU :: real where "MERCURY_AU = 0.39"
definition VENUS_AU :: real where "VENUS_AU = 0.72"
definition EARTH_AU :: real where "EARTH_AU = 1.0"
definition MARS_AU :: real where "MARS_AU = 1.52"
definition JUPITER_AU :: real where "JUPITER_AU = 5.2"
definition SATURN_AU :: real where "SATURN_AU = 9.54"
definition URANUS_AU :: real where "URANUS_AU = 19.2"
definition NEPTUNE_AU :: real where "NEPTUNE_AU = 30.06"
definition PLUTO_AU :: real where "PLUTO_AU = 39.5"
definition EARTH_RADIUS :: real where "EARTH_RADIUS = 10"

datatype planet =
  Mercury | Venus | Earth | Mars | Jupiter | Saturn | Uranus | Neptune | Pluto

text \<open>
  \<open>createSolarSystem\<close> places every planet group on the x axis, at its AU distance
  times \<open>AU_SCALE\<close>, and the moon group (a child of the earth group) at
  \<open>EARTH_RADIUS * 2.5\<close>.
\<close>

fun initialPosition :: "planet \<Rightarrow> vec3" where
  "initialPosition Mercury = vec (AU_SCALE * MERCURY_AU) 0 0"
| "initialPosition Venus = vec (AU_SCALE * VENUS_AU) 0 0"
| "initialPosition Earth = vec (AU_SCALE * EARTH_AU) 0 0"
| "initialPosition Mars = vec (AU_SCALE * MARS_AU) 0 0"
| "initialPosition Jupiter = vec (AU_SCALE * JUPITER_AU) 0 0"
| "initialPosition Saturn = vec (AU_SCALE * SATURN_AU) 0 0"
| "initialPosition Uranus = vec (AU_SCALE * URANUS_AU) 0 0"
| "initialPosition Neptune = vec (AU_SCALE * NEPTUNE_AU) 0 0"
| "initialPosition Pluto = vec (AU_SCALE * PLUTO_AU) 0 0"

definition moonInitialPosition :: vec3 where
  "moonInitialPosition = vec (EARTH_RADIUS * 2.5) 0 0"

text \<open>
  One frame of \<open>animate\<close> overwrites the x and z coordinates of each group's position
  from \<open>Date.now()\<close>; the y coordinate is never assigned. The expressions are those
  of the source, in its order of evaluation.
\<close>

fun orbit :: "planet \<Rightarrow> real \<Rightarrow> vec3 \<Rightarrow> vec3" where
  "orbit Mercury now p =
     p\<lparr>x := cos (now * 0.0002) * AU_SCALE * MERCURY_AU * 5 / 15,
       z := sin (now * 0.0002) * AU_SCALE * MERCURY_AU * 5 / 15\<rparr>"
| "orbit Venus now p =
     p\<lparr>x := cos (now * 0.00015) * AU_SCALE * VENUS_AU,
       z := sin (now * 0.00015) * AU_SCALE * VENUS_AU\<rparr>"
| "orbit Earth now p =
     p\<lparr>x := cos (now * 0.0001) * AU_SCALE * EARTH_AU,
       z := sin (now * 0.0001) * AU_SCALE * EARTH_AU\<rparr>"
| "orbit Mars now p =
     p\<lparr>x := cos (now * 0.00008) * AU_SCALE * MARS_AU,
       z := sin (now * 0.00008) * AU_SCALE * MARS_AU\<rparr>"
| "orbit Jupiter now p =
     p\<lparr>x := cos (now * 0.00004) * AU_SCALE * JUPITER_AU,
       z := sin (now * 0.00004) * AU_SCALE * JUPITER_AU\<rparr>"
| "orbit Saturn now p =
     p\<lparr>x := cos (now * 0.00003) * AU_SCALE * SATURN_AU,
       z := sin (now * 0.00003) * AU_SCALE * SATURN_AU\<rparr>"
| "orbit Uranus now p =
     p\<lparr>x := cos (now * 0.00002) * AU_SCALE * URANUS_AU,
       z := sin (now * 0.00002) * AU_SCALE * URANUS_AU\<rparr>"
| "orbit Neptune now p =
     p\<lparr>x := cos (now * 0.000015) * AU_SCALE * NEPTUNE_AU,
       z := sin (now * 0.000015) * AU_SCALE * NEPTUNE_AU\<rparr>"
| "orbit Pluto now p =
     p\<lparr>x := cos (now * 0.00001) * AU_SCALE * PLUTO_AU,
       z := sin (now * 0.00001) * AU_SCALE * PLUTO_AU\<rparr>"

definition moonOrbit :: "real \<Rightarrow> vec3 \<Rightarrow> vec3" where
  "moonOrbit now p =
     p\<lparr>x := cos (now * 0.0005) * EARTH_RADIUS * 2.5,
       z := sin (now * 0.0005) * EARTH_RADIUS * 2.5\<rparr>"

text \<open>
  The two tables the orbit contract speaks of, read off the constants above: each
  planet's distance in astronomical units and its angular speed per millisecond.
\<close>

fun radiusAU :: "planet \<Rightarrow> real" where
  "radiusAU Mercury = MERCURY_AU"
| "radiusAU Venus = VENUS_AU"
| "radiusAU Earth = EARTH_AU"
| "radiusAU Mars = MARS_AU"
| "radiusAU Jupiter = JUPITER_AU"
| "radiusAU Saturn = SATURN_AU"
| "radiusAU Uranus = URANUS_AU"
| "radiusAU Neptune = NEPTUNE_AU"
| "radiusAU Pluto = PLUTO_AU"

fun angularSpeedConst :: "planet \<Rightarrow> real" where
  "angularSpeedConst Mercury = 0.0002"
| "angularSpeedConst Venus = 0.00015"
| "angularSpeedConst Earth = 0.0001"
| "angularSpeedConst Mars = 0.00008"
| "angularSpeedConst Jupiter = 0.00004"
| "angularSpeedConst Saturn = 0.00003"
| "angularSpeedConst Uranus = 0.00002"
| "angularSpeedConst Neptune = 0.000015"
| "angularSpeedConst Pluto = 0.00001"

section \<open>The exhaust particle system (getShipExhaust.js)\<close>

text \<open>
  The source keeps the pool as parallel arrays indexed by the particle number
  (\<open>positions\<close>, \<open>velocities\<close>, \<open>sizes\<close>, \<open>colors\<close>, \<open>lifetimes\<close>,
  \<open>maxLifetimes\<close>, \<open>emitterIndices\<close>), all of length \<open>config.count\<close>. The model
  keeps one record per index and the pool as the list of these records, in index order.
  The array behind the geometry's \<open>size\<close> attribute is the array \<open>sizes\<close> itself, so
  the write to \<open>geometry.attributes.size.array[i]\<close> is a write to \<open>sizes[i]\<close>.
\<close>

record particle =
  position :: vec3
  velocity :: vec3
  size :: real
  color :: vec3
  lifetime :: real
  maxLifetime :: real
  emitterIndex :: nat

record config =
  size_min :: real
  size_max :: real
  lifetime_min :: real
  lifetime_max :: real
  speed_min :: real
  speed_max :: real
  spread_x :: real
  spread_y :: real
  spread_z :: real

record exhaust =
  particles :: "particle list"
  emitterPositions :: "vec3 \<times> vec3"
  activeParticles :: nat
  needsUpdate :: bool

text \<open>The state of the loop in \<open>update\<close>: the shared spawn counter, the cursor of the
  random source and the count of live particles seen.\<close>

record loop_state =
  spawned :: nat
  cursor :: nat
  activeCount :: nat

definition emitterPos :: "vec3 \<times> vec3 \<Rightarrow> nat \<Rightarrow> vec3" where
  "emitterPos ep i = (if i = 0 then fst ep else snd ep)"

definition particlesPerEmitter :: "bool \<Rightarrow> real \<Rightarrow> int" where
  "particlesPerEmitter isBoost shipVelocity =
     (if isBoost then min 3 \<lceil>shipVelocity * 1\<rceil> else min 1 \<lceil>shipVelocity * 0.5\<rceil>)"

definition sizeMultiplier :: "real \<Rightarrow> real" where
  "sizeMultiplier lifeRatio =
     (if lifeRatio < 0.2 then lifeRatio * 5 else 1 - ((lifeRatio - 0.2) * 1.25))"

text \<open>The three direction vectors are optional arguments (\<open>null\<close> by default).\<close>

definition hasShipDirections :: "vec3 option \<Rightarrow> vec3 option \<Rightarrow> vec3 option \<Rightarrow> bool" where
  "hasShipDirections backwardDir rightDir upDir =
     (backwardDir \<noteq> None \<and> rightDir \<noteq> None \<and> upDir \<noteq> None)"

definition respawnVelocity ::
  "config \<Rightarrow> real \<Rightarrow> vec3 option \<Rightarrow> vec3 option \<Rightarrow> vec3 option \<Rightarrow> (nat \<Rightarrow> real) \<Rightarrow> nat \<Rightarrow> vec3"
where
  "respawnVelocity cfg shipVelocity backwardDir rightDir upDir rs k =
     (let speedFactor = max 0.8 shipVelocity in
      if hasShipDirections backwardDir rightDir upDir then
        (let b = the backwardDir; r = the rightDir; u = the upDir;
             randomRight = (rs k - 0.5) * spread_x cfg;
             randomUp = (rs (k + 1) - 0.5) * spread_y cfg;
             randomBack = rs (k + 2) * speed_max cfg * speedFactor + speed_min cfg
         in vec (x b * randomBack + x r * randomRight + x u * randomUp)
                (y b * randomBack + y r * randomRight + y u * randomUp)
                (z b * randomBack + z r * randomRight + z u * randomUp))
      else
        vec ((rs k - 0.5) * spread_x cfg)
            ((rs (k + 1) - 0.5) * spread_y cfg)
            (rs (k + 2) * speed_max cfg * speedFactor + speed_min cfg))"

text \<open>The respawn branch: four random draws, the fourth for the new maximum age.\<close>

definition respawn ::
  "config \<Rightarrow> real \<Rightarrow> vec3 option \<Rightarrow> vec3 option \<Rightarrow> vec3 option \<Rightarrow> vec3 \<times> vec3 \<Rightarrow>
   (nat \<Rightarrow> real) \<Rightarrow> nat \<Rightarrow> particle \<Rightarrow> particle"
where
  "respawn cfg shipVelocity backwardDir rightDir upDir ep rs k p =
     p\<lparr>position := emitterPos ep (emitterIndex p),
       velocity := respawnVelocity cfg shipVelocity backwardDir rightDir upDir rs k,
       lifetime := 0,
       maxLifetime := rs (k + 3) * (lifetime_max cfg - lifetime_min cfg) + lifetime_min cfg,
       color := vec 0 1 1\<rparr>"

text \<open>The branch of a live particle; \<open>delta\<close> is already clamped.\<close>

definition advance :: "real \<Rightarrow> particle \<Rightarrow> particle" where
  "advance delta p =
     (let pos = vec (x (position p) + x (velocity p) * delta)
                    (y (position p) + y (velocity p) * delta)
                    (z (position p) + z (velocity p) * delta);
          age = lifetime p + delta;
          lifeRatio = age / maxLifetime p;
          sz = size p * max 0 (sizeMultiplier lifeRatio);
          col = (if lifeRatio > 0.5
                 then (let colorRatio = (lifeRatio - 0.5) * 2
                       in vec 0 (max 0 (1 - colorRatio * 0.8)) (max 0.2 (1 - colorRatio * 0.5)))
                 else color p)
      in p\<lparr>position := pos, lifetime := age, size := sz, color := col\<rparr>)"

text \<open>The body of the loop, for the particle at the current index.\<close>

definition update_particle ::
  "config \<Rightarrow> real \<Rightarrow> real \<Rightarrow> int \<Rightarrow> vec3 option \<Rightarrow> vec3 option \<Rightarrow> vec3 option \<Rightarrow> vec3 \<times> vec3 \<Rightarrow>
   (nat \<Rightarrow> real) \<Rightarrow> particle \<Rightarrow> loop_state \<Rightarrow> particle \<times> loop_state"
where
  "update_particle cfg delta shipVelocity budget backwardDir rightDir upDir ep rs p st =
     (if lifetime p \<ge> maxLifetime p then
        (if int (spawned st) < budget then
           (respawn cfg shipVelocity backwardDir rightDir upDir ep rs (cursor st) p,
            st\<lparr>spawned := spawned st + 1, cursor := cursor st + 4\<rparr>)
         else (p, st))
      else (advance delta p, st\<lparr>activeCount := activeCount st + 1\<rparr>))"

fun update_loop ::
  "config \<Rightarrow> real \<Rightarrow> real \<Rightarrow> int \<Rightarrow> vec3 option \<Rightarrow> vec3 option \<Rightarrow> vec3 option \<Rightarrow> vec3 \<times> vec3 \<Rightarrow>
   (nat \<Rightarrow> real) \<Rightarrow> particle list \<Rightarrow> loop_state \<Rightarrow> particle list \<times> loop_state"
where
  "update_loop cfg delta shipVelocity budget backwardDir rightDir upDir ep rs [] st = ([], st)"
| "update_loop cfg delta shipVelocity budget backwardDir rightDir upDir ep rs (p # ps) st =
     (let (p', st') =
            update_particle cfg delta shipVelocity budget backwardDir rightDir upDir ep rs p st;
          (ps', st'') =
            update_loop cfg delta shipVelocity budget backwardDir rightDir upDir ep rs ps st'
      in (p' # ps', st''))"

text \<open>
  \<open>update\<close> returns the new state of the system and the new cursor of the random
  source. The counter \<open>activeParticles\<close> lives in the closure, is read as it stands when
  the call begins and is set to zero when the loop is over.
\<close>

definition update ::
  "config \<Rightarrow> real \<Rightarrow> real \<Rightarrow> bool \<Rightarrow> vec3 option \<Rightarrow> vec3 option \<Rightarrow> vec3 option \<Rightarrow>
   (nat \<Rightarrow> real) \<Rightarrow> nat \<Rightarrow> exhaust \<Rightarrow> exhaust \<times> nat"
where
  "update cfg delta0 shipVelocity isBoost backwardDir rightDir upDir rs k s =
     (let delta = min delta0 0.1;
          budget = particlesPerEmitter isBoost shipVelocity;
          (ps', st) =
            update_loop cfg delta shipVelocity budget backwardDir rightDir upDir
              (emitterPositions s) rs (particles s)
              \<lparr>spawned = activeParticles s, cursor = k, activeCount = 0\<rparr>
      in (s\<lparr>particles := ps', activeParticles := 0,
             needsUpdate := (needsUpdate s \<or> activeCount st > 0)\<rparr>,
          cursor st))"

definition setEmitterPositions :: "vec3 \<Rightarrow> vec3 \<Rightarrow> exhaust \<Rightarrow> exhaust" where
  "setEmitterPositions leftPos rightPos s = s\<lparr>emitterPositions := (leftPos, rightPos)\<rparr>"

definition clearAllParticles :: "exhaust \<Rightarrow> exhaust" where
  "clearAllParticles s =
     s\<lparr>particles :=
         map (\<lambda>p. p\<lparr>lifetime := maxLifetime p + 1,
                     position := emitterPos (emitterPositions s) (emitterIndex p)\<rparr>)
           (particles s),
       needsUpdate := True,
       activeParticles := 0\<rparr>"

text \<open>
  The pool as \<open>getShipExhaust\<close> builds it: particle \<open>i\<close> takes five random draws
  (two for the sideways velocity, one for the speed, one for the size, one for the
  maximum age), starts at the origin with age 0, and belongs to the left emitter when
  \<open>i < count / 2\<close>.
\<close>

definition initParticle :: "config \<Rightarrow> nat \<Rightarrow> (nat \<Rightarrow> real) \<Rightarrow> nat \<Rightarrow> particle" where
  "initParticle cfg count rs i =
     \<lparr>position = vec 0 0 0,
      velocity = vec ((rs (5 * i) - 0.5) * spread_x cfg)
                     ((rs (5 * i + 1) - 0.5) * spread_y cfg)
                     (rs (5 * i + 2) * speed_max cfg + speed_min cfg),
      size = rs (5 * i + 3) * (size_max cfg - size_min cfg) + size_min cfg,
      color = vec 0 1 1,
      lifetime = 0,
      maxLifetime = rs (5 * i + 4) * (lifetime_max cfg - lifetime_min cfg) + lifetime_min cfg,
      emitterIndex = (if real i < real count / 2 then 0 else 1)\<rparr>"

definition getShipExhaust :: "config \<Rightarrow> nat \<Rightarrow> (nat \<Rightarrow> real) \<Rightarrow> exhaust" where
  "getShipExhaust cfg count rs =
     \<lparr>particles = map (initParticle cfg count rs) [0..<count],
      emitterPositions = (vec 0 0 0, vec 0 0 0),
      activeParticles = 0,
      needsUpdate = False\<rparr>"

text \<open>The configuration index.js passes to \<open>getShipExhaust\<close>.\<close>

definition shipExhaustConfig :: config where
  "shipExhaustConfig =
     \<lparr>size_min = 0.025, size_max = 0.05, lifetime_min = 0.5, lifetime_max = 0.6,
      speed_min = 0.2, speed_max = 0.6, spread_x = 0.05, spread_y = 0.05, spread_z = 0.08\<rparr>"

section \<open>The sun eruption particle system (createSolarSystem.js)\<close>

record eruption_particle =
  e_position :: vec3
  e_velocity :: vec3
  e_size :: real
  e_current :: real
  e_max :: real

text \<open>
  The body of the loop of \<open>sunEruptionSystem.update\<close>: the remaining life is
  decremented first, by \<open>delta\<close> as it was passed. A respawn takes four random draws,
  a surviving particle one (for its size).
\<close>

definition eruption_step ::
  "real \<Rightarrow> (nat \<Rightarrow> real) \<Rightarrow> eruption_particle \<Rightarrow> nat \<Rightarrow> eruption_particle \<times> nat"
where
  "eruption_step delta rs p k =
     (let cur = e_current p - delta in
      if cur \<le> 0 then
        (let theta = rs k * pi * 2;
             phi = arccos (2 * rs (k + 1) - 1);
             radius = 100;
             pos = vec (radius * sin phi * cos theta)
                       (radius * sin phi * sin theta)
                       (radius * cos phi);
             vel = vec (x pos * 0.01) (y pos * 0.01) (z pos * 0.01);
             mx = 1 + rs (k + 2) * 3
         in (p\<lparr>e_position := pos, e_velocity := vel, e_max := mx, e_current := mx,
                e_size := 2 + rs (k + 3) * 3\<rparr>,
             k + 4))
      else
        (let pos = vec (x (e_position p) + x (e_velocity p) * delta * 15)
                       (y (e_position p) + y (e_velocity p) * delta * 15)
                       (z (e_position p) + z (e_velocity p) * delta * 15);
             lifeRatio = cur / e_max p
         in (p\<lparr>e_current := cur, e_position := pos, e_size := (2 + rs k * 3) * lifeRatio\<rparr>,
             k + 1)))"

fun eruption_update ::
  "real \<Rightarrow> (nat \<Rightarrow> real) \<Rightarrow> eruption_particle list \<Rightarrow> nat \<Rightarrow> eruption_particle list \<times> nat"
where
  "eruption_update delta rs [] k = ([], k)"
| "eruption_update delta rs (p # ps) k =
     (let (p', k') = eruption_step delta rs p k;
          (ps', k'') = eruption_update delta rs ps k'
      in (p' # ps', k''))"

section \<open>Flight control and camera (index.js)\<close>

record shipControls =
  pitchUp :: bool
  pitchDown :: bool
  bankLeft :: bool
  bankRight :: bool
  boost :: bool
  stop :: bool
  baseSpeed :: real
  boostSpeed :: real
  speed :: real
  maxBankAngle :: real

definition initialControls :: shipControls where
  "initialControls =
     \<lparr>pitchUp = False, pitchDown = False, bankLeft = False, bankRight = False,
      boost = False, stop = False, baseSpeed = 0.4, boostSpeed = 1.2, speed = 0.4,
      maxBankAngle = pi / 6\<rparr>"

datatype key = KeyW | KeyS | KeyA | KeyD | ShiftLeft | ShiftRight | Space | OtherKey

fun handleKeyDown :: "key \<Rightarrow> shipControls \<times> exhaust \<Rightarrow> shipControls \<times> exhaust" where
  "handleKeyDown KeyW (c, e) = (c\<lparr>pitchUp := True\<rparr>, e)"
| "handleKeyDown KeyS (c, e) = (c\<lparr>pitchDown := True\<rparr>, e)"
| "handleKeyDown KeyA (c, e) = (c\<lparr>bankLeft := True\<rparr>, e)"
| "handleKeyDown KeyD (c, e) = (c\<lparr>bankRight := True\<rparr>, e)"
| "handleKeyDown ShiftLeft (c, e) = (c\<lparr>boost := True, speed := boostSpeed c\<rparr>, e)"
| "handleKeyDown ShiftRight (c, e) = (c\<lparr>boost := True, speed := boostSpeed c\<rparr>, e)"
| "handleKeyDown Space (c, e) = (c\<lparr>stop := True\<rparr>, clearAllParticles e)"
| "handleKeyDown OtherKey (c, e) = (c, e)"

fun handleKeyUp :: "key \<Rightarrow> shipControls \<times> exhaust \<Rightarrow> shipControls \<times> exhaust" where
  "handleKeyUp KeyW (c, e) = (c\<lparr>pitchUp := False\<rparr>, e)"
| "handleKeyUp KeyS (c, e) = (c\<lparr>pitchDown := False\<rparr>, e)"
| "handleKeyUp KeyA (c, e) = (c\<lparr>bankLeft := False\<rparr>, e)"
| "handleKeyUp KeyD (c, e) = (c\<lparr>bankRight := False\<rparr>, e)"
| "handleKeyUp ShiftLeft (c, e) = (c\<lparr>boost := False, speed := baseSpeed c\<rparr>, e)"
| "handleKeyUp ShiftRight (c, e) = (c\<lparr>boost := False, speed := baseSpeed c\<rparr>, e)"
| "handleKeyUp Space (c, e) = (c\<lparr>stop := False\<rparr>, clearAllParticles e)"
| "handleKeyUp OtherKey (c, e) = (c, e)"

text \<open>
  Orientations are \<open>THREE.Quaternion\<close> values, computed by the library. The model keeps
  them as the terms of the library calls that build them, so that a frame's effect on
  the ship's orientation is the call it makes: \<open>Premultiply q r\<close> is
  \<open>q.premultiply(r)\<close>, \<open>SetFromLookAt eye target up\<close> is the quaternion set from
  the matrix \<open>lookAt(eye, target, up)\<close>, and \<open>Slerp q r t\<close> is \<open>q.slerp(r, t)\<close>.
\<close>

datatype quat =
  Quaternion real real real real
| SetFromAxisAngle vec3 real
| Premultiply quat quat
| SetFromLookAt vec3 vec3 vec3
| Slerp quat quat real

record ship =
  shipPosition :: vec3
  shipQuaternion :: quat

definition floatAmount :: "shipControls \<Rightarrow> real" where
  "floatAmount c = (if pitchUp c \<or> pitchDown c then 0 else 2)"

text \<open>
  The position part of the ship block of \<open>animate\<close>. \<open>worldDirection\<close> is what
  \<open>getWorldDirection\<close> returns for the ship in this frame.
\<close>

definition shipTranslation :: "real \<Rightarrow> shipControls \<Rightarrow> vec3 \<Rightarrow> vec3 \<Rightarrow> vec3" where
  "shipTranslation now c worldDirection p =
     (let floatAngle = now * 0.001;
          p0 = p\<lparr>y := sin floatAngle * floatAmount c\<rparr>;
          direction = negate worldDirection;
          rightDirection = normalize_vec (crossVectors direction (vec 0 1 0));
          p1 = (if \<not> stop c then addScaledVector p0 direction (speed c) else p0);
          p2 = (if bankLeft c \<and> \<not> stop c
                then addScaledVector p1 rightDirection (speed c * 0.05) else p1);
          p3 = (if bankRight c \<and> \<not> stop c
                then addScaledVector p2 rightDirection (speed c * - 0.05) else p2)
      in p3)"

text \<open>
  The target orientation and the flag \<open>needRotationUpdate\<close>, through the four
  guarded blocks in the order of the source. \<open>currentRotation\<close> is what
  \<open>getWorldQuaternion\<close> returns.
\<close>

definition targetRotation :: "shipControls \<Rightarrow> vec3 \<Rightarrow> quat \<Rightarrow> quat \<times> bool" where
  "targetRotation c worldDirection currentRotation =
     (let direction = negate worldDirection;
          rightDirection = normalize_vec (crossVectors direction (vec 0 1 0));
          (t0, n0) = (currentRotation, False);
          (t1, n1) = (if pitchUp c \<and> \<not> stop c
                      then (Premultiply t0 (SetFromAxisAngle rightDirection 0.02), True)
                      else (t0, n0));
          (t2, n2) = (if pitchDown c \<and> \<not> stop c
                      then (Premultiply t1 (SetFromAxisAngle rightDirection (- 0.02)), True)
                      else (t1, n1));
          (t3, n3) = (if bankLeft c \<and> \<not> stop c
                      then (let bankAngle = min 0.05 (maxBankAngle c)
                            in (Premultiply
                                  (Premultiply t2 (SetFromAxisAngle direction (- bankAngle)))
                                  (SetFromAxisAngle (vec 0 1 0) 0.2), True))
                      else (t2, n2));
          (t4, n4) = (if bankRight c \<and> \<not> stop c
                      then (let bankAngle = min 0.05 (maxBankAngle c)
                            in (Premultiply
                                  (Premultiply t3 (SetFromAxisAngle direction bankAngle))
                                  (SetFromAxisAngle (vec 0 1 0) (- 0.2)), True))
                      else (t3, n3))
      in (t4, n4))"

definition levelRotation :: "vec3 \<Rightarrow> quat" where
  "levelRotation worldDirection =
     (let currentDirection = negate worldDirection;
          worldUp = vec 0 1 0
      in SetFromLookAt (vec 0 0 0) currentDirection worldUp)"

definition shipRotation :: "shipControls \<Rightarrow> vec3 \<Rightarrow> quat \<Rightarrow> quat \<Rightarrow> quat" where
  "shipRotation c worldDirection currentRotation q =
     (let (target, needRotationUpdate) = targetRotation c worldDirection currentRotation
      in if needRotationUpdate then Slerp q target 0.1
         else Slerp q (levelRotation worldDirection) 0.02)"

definition animate_ship :: "real \<Rightarrow> shipControls \<Rightarrow> vec3 \<Rightarrow> quat \<Rightarrow> ship \<Rightarrow> ship" where
  "animate_ship now c worldDirection currentRotation s =
     \<lparr>shipPosition = shipTranslation now c worldDirection (shipPosition s),
      shipQuaternion = shipRotation c worldDirection currentRotation (shipQuaternion s)\<rparr>"

text \<open>
  The camera block. A \<open>THREE.Matrix4\<close> is its array of sixteen elements, column by
  column; \<open>applyMatrix4\<close> is the library's transform of a point, with its perspective
  divide. The camera's orientation is set by \<open>lookAt\<close>; the model records the point
  it was given.
\<close>

type_synonym mat4 = "nat \<Rightarrow> real"

definition applyMatrix4 :: "vec3 \<Rightarrow> mat4 \<Rightarrow> vec3" where
  "applyMatrix4 v e =
     (let w = 1 / (e 3 * x v + e 7 * y v + e 11 * z v + e 15)
      in vec ((e 0 * x v + e 4 * y v + e 8 * z v + e 12) * w)
             ((e 1 * x v + e 5 * y v + e 9 * z v + e 13) * w)
             ((e 2 * x v + e 6 * y v + e 10 * z v + e 14) * w))"

definition cameraOffset :: vec3 where
  "cameraOffset = vec 0 1 2"

record camera =
  cameraPosition :: vec3
  cameraLookAt :: vec3

definition camera_follow :: "shipControls \<Rightarrow> mat4 \<Rightarrow> vec3 \<Rightarrow> camera \<Rightarrow> camera" where
  "camera_follow c matrixWorld shipPos cam =
     (let targetCameraPosition = applyMatrix4 cameraOffset matrixWorld;
          pos = (if boost c then lerp (cameraPosition cam) targetCameraPosition 0.05
                 else targetCameraPosition)
      in \<lparr>cameraPosition = pos, cameraLookAt = shipPos\<rparr>)"

text \<open>
  The ship block of one frame: the ship first, then the camera, which is given the
  ship's new position to look at. \<open>matrixWorld\<close> is the ship's world matrix as the
  library holds it when the camera block reads it.
\<close>

definition animate_ship_camera ::
  "real \<Rightarrow> shipControls \<Rightarrow> vec3 \<Rightarrow> quat \<Rightarrow> mat4 \<Rightarrow> ship \<times> camera \<Rightarrow> ship \<times> camera"
where
  "animate_ship_camera now c worldDirection currentRotation matrixWorld sc =
     (let s' = animate_ship now c worldDirection currentRotation (fst sc)
      in (s', camera_follow c matrixWorld (shipPosition s') (snd sc)))"

text \<open>
  The random numbers a step of the eruption system takes. The loop body calls
  \<open>Math.random()\<close> four times for a particle it respawns and once for any other, so
  the cursor at which it reaches particle \<open>i\<close> is the cursor at the start of the call
  plus the draws of the particles before \<open>i\<close>.
\<close>

definition eruption_draws :: "real \<Rightarrow> eruption_particle \<Rightarrow> nat" where
  "eruption_draws delta p = (if e_current p - delta \<le> 0 then 4 else 1)"

definition eruption_cursor :: "real \<Rightarrow> eruption_particle list \<Rightarrow> nat \<Rightarrow> nat \<Rightarrow> nat" where
  "eruption_cursor delta ps k i = k + sum_list (map (eruption_draws delta) (take i ps))"

section \<open>Counting respawns\<close>

text \<open>
  A particle is dead when its age has reached its maximum age. \<open>respawnCount\<close>
  compares the pool before and after a call, index by index, and counts the particles
  that were dead before the call and are not what they were: a call leaves a dead
  particle untouched unless it respawns it.
\<close>

fun respawnCount :: "particle list \<Rightarrow> particle list \<Rightarrow> nat" where
  "respawnCount (p # ps) (q # qs) =
     (if lifetime p \<ge> maxLifetime p \<and> q \<noteq> p then 1 else 0) + respawnCount ps qs"
| "respawnCount ps qs = 0"

definition liveCount :: "particle list \<Rightarrow> nat" where
  "liveCount ps = length (filter (\<lambda>p. lifetime p < maxLifetime p) ps)"

section \<open>Orbits: circles in the plane y = 0\<close>

lemma vlength_circle:
  "0 \<le> r \<Longrightarrow> sqrt (cos a * r * (cos a * r) + 0 + sin a * r * (sin a * r)) = r"
proof -
  assume r: "0 \<le> r"
  have "cos a * r * (cos a * r) + 0 + sin a * r * (sin a * r)
        = r * r * (cos a * cos a + sin a * sin a)"
    by (simp only: distrib_left mult_ac add_0_right)
  also have "\<dots> = r * r" by (simp only: sin_cos_squared_add3 mult_1_right)
  finally show ?thesis using r by simp
qed

lemma vlength_orbit:
  "0 \<le> r \<Longrightarrow> y p = 0 \<Longrightarrow> vlength (p\<lparr>x := cos a * r, z := sin a * r\<rparr>) = r"
  using vlength_circle [of r a] by (simp add: vlength_def)

lemmas orbit_consts = AU_SCALE_def MERCURY_AU_def VENUS_AU_def EARTH_AU_def MARS_AU_def
  JUPITER_AU_def SATURN_AU_def URANUS_AU_def NEPTUNE_AU_def PLUTO_AU_def EARTH_RADIUS_def

lemma vec3_y_eq: "y p = 0 \<Longrightarrow> p\<lparr>x := a, z := b\<rparr> = vec a 0 b"
  by (simp add: vec_def)

lemma orbit_keeps_y: "y (orbit pl now p) = y p"
  by (cases pl) simp_all

lemma initialPosition_y: "y (initialPosition pl) = 0"
  by (cases pl) (simp_all add: vec_def)

lemma moonOrbit_keeps_y: "y (moonOrbit now p) = y p"
  by (simp add: moonOrbit_def)

lemma moonInitialPosition_y: "y moonInitialPosition = 0"
  by (simp add: moonInitialPosition_def vec_def)

lemma orbit_as_circle:
  "pl \<noteq> Mercury \<Longrightarrow>
   orbit pl now p = p\<lparr>x := cos (now * angularSpeedConst pl) * (radiusAU pl * AU_SCALE),
                       z := sin (now * angularSpeedConst pl) * (radiusAU pl * AU_SCALE)\<rparr>"
  by (cases pl) (simp_all add: mult_ac)

lemma mercury_as_circle:
  "orbit Mercury now p =
     p\<lparr>x := cos (now * angularSpeedConst Mercury) * (radiusAU Mercury * AU_SCALE / 3),
       z := sin (now * angularSpeedConst Mercury) * (radiusAU Mercury * AU_SCALE / 3)\<rparr>"
  by (simp add: mult_ac)

lemma moon_as_circle:
  "moonOrbit now p = p\<lparr>x := cos (now * 0.0005) * (EARTH_RADIUS * 2.5),
                        z := sin (now * 0.0005) * (EARTH_RADIUS * 2.5)\<rparr>"
  by (simp add: moonOrbit_def mult_ac)

lemma radius_nonneg: "0 \<le> radiusAU pl * AU_SCALE"
  by (cases pl) (simp_all add: orbit_consts)

text \<open>
  C1, as the code has it. A group whose y coordinate is 0 (every group is created so,
  and no frame assigns y) is placed by a frame on a circle in the plane y = 0 around
  its parent. For every planet but Mercury the position is
  \<open>(cos (t * angularSpeedConst) * radiusAU * AU_SCALE, 0, sin (t * angularSpeedConst) * radiusAU * AU_SCALE)\<close>
  and its length is \<open>radiusAU * AU_SCALE\<close>. Mercury is placed on the circle of one
  third of that radius (the factor \<open>5 / 15\<close> of the source), and the moon on the circle
  of radius \<open>EARTH_RADIUS * 2.5\<close> around the earth.
\<close>

theorem orbit_radius:
  "y p = 0 \<Longrightarrow>
     (pl \<noteq> Mercury \<longrightarrow>
        orbit pl now p =
          vec (cos (now * angularSpeedConst pl) * (radiusAU pl * AU_SCALE)) 0
              (sin (now * angularSpeedConst pl) * (radiusAU pl * AU_SCALE)) \<and>
        vlength (orbit pl now p) = radiusAU pl * AU_SCALE) \<and>
     orbit Mercury now p =
       vec (cos (now * angularSpeedConst Mercury) * (radiusAU Mercury * AU_SCALE / 3)) 0
           (sin (now * angularSpeedConst Mercury) * (radiusAU Mercury * AU_SCALE / 3)) \<and>
     vlength (orbit Mercury now p) = radiusAU Mercury * AU_SCALE / 3 \<and>
     vlength (moonOrbit now p) = EARTH_RADIUS * 2.5"
proof -
  assume y0: "y p = 0"
  have rm: "0 \<le> radiusAU Mercury * AU_SCALE / 3"
    using radius_nonneg [of Mercury] by simp
  have re: "0 \<le> EARTH_RADIUS * 2.5" by (simp add: EARTH_RADIUS_def)
  have a: "orbit pl now p =
          vec (cos (now * angularSpeedConst pl) * (radiusAU pl * AU_SCALE)) 0
              (sin (now * angularSpeedConst pl) * (radiusAU pl * AU_SCALE))" if "pl \<noteq> Mercury"
    unfolding orbit_as_circle [OF that] by (rule vec3_y_eq [OF y0])
  have b: "vlength (orbit pl now p) = radiusAU pl * AU_SCALE" if "pl \<noteq> Mercury"
    unfolding orbit_as_circle [OF that] by (rule vlength_orbit [OF radius_nonneg y0])
  have c: "orbit Mercury now p =
       vec (cos (now * angularSpeedConst Mercury) * (radiusAU Mercury * AU_SCALE / 3)) 0
           (sin (now * angularSpeedConst Mercury) * (radiusAU Mercury * AU_SCALE / 3))"
    unfolding mercury_as_circle by (rule vec3_y_eq [OF y0])
  have d: "vlength (orbit Mercury now p) = radiusAU Mercury * AU_SCALE / 3"
    unfolding mercury_as_circle by (rule vlength_orbit [OF rm y0])
  have e: "vlength (moonOrbit now p) = EARTH_RADIUS * 2.5"
    unfolding moon_as_circle by (rule vlength_orbit [OF re y0])
  show ?thesis using a b c d e by blast
qed

text \<open>Venus at \<open>now = 0\<close>, from its initial position: the point \<open>(288, 0, 0)\<close>.\<close>

theorem orbit_radius_witness:
  "y (initialPosition Venus) = 0 \<and> Venus \<noteq> Mercury \<and>
   orbit Venus 0 (initialPosition Venus) = vec 288 0 0 \<and>
   vlength (orbit Venus 0 (initialPosition Venus)) = 288"
  using orbit_radius [of "initialPosition Venus" Venus 0]
  by (simp add: vec_def orbit_consts)

text \<open>
  Mercury at \<open>now = 0\<close>: the frame moves it from \<open>(156, 0, 0)\<close> to \<open>(52, 0, 0)\<close>,
  at distance 52 from the sun, while \<open>radiusAU * AU_SCALE\<close> is 156.
\<close>

theorem mercury_radius_counterexample:
  "orbit Mercury 0 (initialPosition Mercury) = vec 52 0 0 \<and>
   vlength (orbit Mercury 0 (initialPosition Mercury)) = 52 \<and>
   radiusAU Mercury * AU_SCALE = 156"
  by (simp add: vec_def vlength_def orbit_consts)

section \<open>The size multiplier of an exhaust particle\<close>

lemma sizeMultiplier_min: "sizeMultiplier r = min (r * 5) (1 - (r - 0.2) * 1.25)"
proof (cases "r < 0.2")
  case True
  then have "r * 5 \<le> 1 - (r - 0.2) * 1.25" by (simp add: field_simps)
  with True show ?thesis by (simp add: sizeMultiplier_def min_def)
next
  case False
  then have "\<not> r * 5 \<le> 1 - (r - 0.2) * 1.25 \<or> r * 5 = 1 - (r - 0.2) * 1.25"
    by (simp add: field_simps)
  with False show ?thesis by (auto simp add: sizeMultiplier_def min_def)
qed

text \<open>
  C9. The size multiplier is continuous at \<open>lifeRatio = 0.2\<close>: the value of the first
  piece there, \<open>0.2 * 5\<close>, is 1, the value of the multiplier there (its second piece) is
  1, and the multiplier, with or without the floor at 0, is a continuous function at
  that point.
\<close>

theorem sizeMultiplier_continuous:
  "0.2 * 5 = (1::real) \<and> sizeMultiplier 0.2 = 1 \<and> isCont sizeMultiplier 0.2 \<and>
   isCont (\<lambda>r. max 0 (sizeMultiplier r)) 0.2"
proof -
  have c: "isCont sizeMultiplier r" for r
    unfolding sizeMultiplier_min [abs_def] by (intro continuous_intros)
  have "isCont (\<lambda>r. max 0 (sizeMultiplier r)) 0.2"
    by (intro continuous_intros c)
  then show ?thesis using c by (simp add: sizeMultiplier_def)
qed

section \<open>The exhaust update: the shared spawn counter\<close>

lemma update_particle_spawned:
  "update_particle cfg delta v budget b r u ep rs p st = (p', st') \<Longrightarrow>
   spawned st \<le> spawned st' \<and> int (spawned st') \<le> max (int (spawned st)) budget \<and>
   cursor st' = cursor st + 4 * (spawned st' - spawned st) \<and>
   (if lifetime p \<ge> maxLifetime p \<and> p' \<noteq> p then 1 else 0) \<le> spawned st' - spawned st"
  by (auto simp add: update_particle_def split: if_splits)

lemma update_loop_spawned:
  "update_loop cfg delta v budget b r u ep rs ps st = (ps', st') \<Longrightarrow>
   spawned st \<le> spawned st' \<and> int (spawned st') \<le> max (int (spawned st)) budget \<and>
   cursor st' = cursor st + 4 * (spawned st' - spawned st) \<and>
   respawnCount ps ps' \<le> spawned st' - spawned st"
proof (induction ps arbitrary: st ps' st')
  case Nil
  then show ?case by simp
next
  case (Cons p ps)
  obtain p1 st1 where h: "update_particle cfg delta v budget b r u ep rs p st = (p1, st1)"
    by (cases "update_particle cfg delta v budget b r u ep rs p st")
  obtain ps2 st2 where t: "update_loop cfg delta v budget b r u ep rs ps st1 = (ps2, st2)"
    by (cases "update_loop cfg delta v budget b r u ep rs ps st1")
  from Cons.prems h t have eq: "ps' = p1 # ps2" "st' = st2" by simp_all
  note A = update_particle_spawned [OF h]
  note B = Cons.IH [OF t]
  from A B have 1: "spawned st \<le> spawned st2" by linarith
  from A B have 2: "int (spawned st2) \<le> max (int (spawned st)) budget" by linarith
  from A B have 3: "cursor st2 = cursor st + 4 * (spawned st2 - spawned st)" by linarith
  from A B have 4: "respawnCount (p # ps) (p1 # ps2) \<le> spawned st2 - spawned st"
    by (auto split: if_splits)
  show ?case unfolding eq using 1 2 3 4 by blast
qed

lemma update_unfold:
  "update cfg delta0 v isBoost b r u rs k s =
     (let res = update_loop cfg (min delta0 0.1) v (particlesPerEmitter isBoost v) b r u
              (emitterPositions s) rs (particles s)
              \<lparr>spawned = activeParticles s, cursor = k, activeCount = 0\<rparr>
      in (s\<lparr>particles := fst res, activeParticles := 0,
             needsUpdate := (needsUpdate s \<or> activeCount (snd res) > 0)\<rparr>,
          cursor (snd res)))"
  by (simp add: update_def Let_def split: prod.splits)

lemma upt_two: "[0..<2] = [0, Suc 0]"
  by (simp add: upt_rec)

lemma budget_cruise: "particlesPerEmitter False 0.4 = 1"
  by (simp add: particlesPerEmitter_def)

lemma budget_boost: "particlesPerEmitter True 1.2 = 2"
  by (simp add: particlesPerEmitter_def)

lemma budget_nonneg: "0 \<le> v \<Longrightarrow> 0 \<le> particlesPerEmitter isBoost v"
  by (simp add: particlesPerEmitter_def)

lemma budget_zero: "particlesPerEmitter False 0 = 0"
  by (simp add: particlesPerEmitter_def)

lemma pool2:
  "getShipExhaust shipExhaustConfig 2 (\<lambda>_. 1 / 2) =
     \<lparr>particles =
        [\<lparr>position = vec 0 0 0, velocity = vec 0 0 (1 / 2), size = 3 / 80, color = vec 0 1 1,
          lifetime = 0, maxLifetime = 11 / 20, emitterIndex = 0\<rparr>,
         \<lparr>position = vec 0 0 0, velocity = vec 0 0 (1 / 2), size = 3 / 80, color = vec 0 1 1,
          lifetime = 0, maxLifetime = 11 / 20, emitterIndex = 1\<rparr>],
      emitterPositions = (vec 0 0 0, vec 0 0 0), activeParticles = 0, needsUpdate = False\<rparr>"
  by (simp add: getShipExhaust_def upt_two initParticle_def shipExhaustConfig_def)

lemma cleared2:
  "clearAllParticles (getShipExhaust shipExhaustConfig 2 (\<lambda>_. 1 / 2)) =
     \<lparr>particles =
        [\<lparr>position = vec 0 0 0, velocity = vec 0 0 (1 / 2), size = 3 / 80, color = vec 0 1 1,
          lifetime = 31 / 20, maxLifetime = 11 / 20, emitterIndex = 0\<rparr>,
         \<lparr>position = vec 0 0 0, velocity = vec 0 0 (1 / 2), size = 3 / 80, color = vec 0 1 1,
          lifetime = 31 / 20, maxLifetime = 11 / 20, emitterIndex = 1\<rparr>],
      emitterPositions = (vec 0 0 0, vec 0 0 0), activeParticles = 0, needsUpdate = True\<rparr>"
  unfolding pool2 by (simp add: clearAllParticles_def emitterPos_def)

lemma step_cleared2:
  "update shipExhaustConfig (1 / 60) 0.4 False None None None (\<lambda>_. 1 / 2) 0
     (clearAllParticles (getShipExhaust shipExhaustConfig 2 (\<lambda>_. 1 / 2))) =
     (\<lparr>particles =
        [\<lparr>position = vec 0 0 0, velocity = vec 0 0 (11 / 25), size = 3 / 80, color = vec 0 1 1,
          lifetime = 0, maxLifetime = 11 / 20, emitterIndex = 0\<rparr>,
         \<lparr>position = vec 0 0 0, velocity = vec 0 0 (1 / 2), size = 3 / 80, color = vec 0 1 1,
          lifetime = 31 / 20, maxLifetime = 11 / 20, emitterIndex = 1\<rparr>],
      emitterPositions = (vec 0 0 0, vec 0 0 0), activeParticles = 0, needsUpdate = True\<rparr>, 4)"
  unfolding cleared2
  using budget_cruise
  by (simp add: update_def Let_def update_particle_def respawn_def respawnVelocity_def
      hasShipDirections_def emitterPos_def shipExhaustConfig_def)

text \<open>
  C3. The ship speed is not negative (index.js passes 0.4 or 1.2). In a call of
  \<open>update\<close> that begins with the shared counter at zero, the respawn branch runs
  \<open>n\<close> times for some \<open>n\<close> that is at most the budget
  \<open>boosting ? min(3, ceil(shipSpeed*1)) : min(1, ceil(shipSpeed*0.5))\<close>: the call
  takes exactly \<open>4 * n\<close> random numbers (four per respawn and none elsewhere), and
  the dead particles it changes, of both emitters together, are at most \<open>n\<close>. The
  one counter is compared against the budget for the particles of both emitters, and
  the call leaves it at zero for the next call.
\<close>

theorem respawns_within_budget:
  "activeParticles s = 0 \<Longrightarrow> 0 \<le> v \<Longrightarrow>
   (\<exists>n. snd (update cfg delta v isBoost b r u rs k s) = k + 4 * n \<and>
        respawnCount (particles s) (particles (fst (update cfg delta v isBoost b r u rs k s))) \<le> n \<and>
        int n \<le> particlesPerEmitter isBoost v) \<and>
   activeParticles (fst (update cfg delta v isBoost b r u rs k s)) = 0"
proof -
  assume a: "activeParticles s = 0" and v: "0 \<le> v"
  let ?st = "\<lparr>spawned = activeParticles s, cursor = k, activeCount = 0\<rparr>"
  obtain ps' st' where l: "update_loop cfg (min delta 0.1) v (particlesPerEmitter isBoost v) b r u
              (emitterPositions s) rs (particles s) ?st = (ps', st')"
    by (cases "update_loop cfg (min delta 0.1) v (particlesPerEmitter isBoost v) b r u
              (emitterPositions s) rs (particles s) ?st")
  note L = update_loop_spawned [OF l]
  have f: "particles (fst (update cfg delta v isBoost b r u rs k s)) = ps'"
    and g: "snd (update cfg delta v isBoost b r u rs k s) = cursor st'"
    and h: "activeParticles (fst (update cfg delta v isBoost b r u rs k s)) = 0"
    unfolding update_unfold l by (simp_all add: Let_def)
  from L a have 1: "cursor st' = k + 4 * spawned st'" by simp
  from L a have 2: "respawnCount (particles s) ps' \<le> spawned st'" by simp
  from L a budget_nonneg [OF v, of isBoost]
  have 3: "int (spawned st') \<le> particlesPerEmitter isBoost v" by simp
  show ?thesis unfolding f g h using 1 2 3 by blast
qed

text \<open>
  A pool of two particles, cleared, then one call at the cruise speed 0.4: the budget is
  1, one particle is respawned and four random numbers are taken.
\<close>

theorem respawns_within_budget_witness:
  "activeParticles (clearAllParticles (getShipExhaust shipExhaustConfig 2 (\<lambda>_. 1 / 2))) = 0 \<and>
   (0::real) \<le> 0.4 \<and>
   snd (update shipExhaustConfig (1 / 60) 0.4 False None None None (\<lambda>_. 1 / 2) 0
          (clearAllParticles (getShipExhaust shipExhaustConfig 2 (\<lambda>_. 1 / 2)))) = 4 \<and>
   respawnCount (particles (clearAllParticles (getShipExhaust shipExhaustConfig 2 (\<lambda>_. 1 / 2))))
     (particles (fst (update shipExhaustConfig (1 / 60) 0.4 False None None None (\<lambda>_. 1 / 2) 0
          (clearAllParticles (getShipExhaust shipExhaustConfig 2 (\<lambda>_. 1 / 2)))))) = 1 \<and>
   particlesPerEmitter False 0.4 = 1"
  using respawns_within_budget [of "clearAllParticles (getShipExhaust shipExhaustConfig 2 (\<lambda>_. 1 / 2))"
      "0.4" shipExhaustConfig "1 / 60" False None None None "\<lambda>_. 1 / 2" 0]
    budget_cruise
  unfolding step_cleared2 unfolding cleared2
  by simp

section \<open>The exhaust update at rest\<close>

lemma update_loop_no_budget:
  "update_loop cfg delta v 0 b r u ep rs ps st =
     (map (\<lambda>p. if lifetime p \<ge> maxLifetime p then p else advance delta p) ps,
      st\<lparr>activeCount := activeCount st + liveCount ps\<rparr>)"
  by (induction ps arbitrary: st) (simp_all add: update_particle_def liveCount_def)

lemma advance_lifetime: "lifetime (advance delta p) = lifetime p + delta"
  and advance_maxLifetime: "maxLifetime (advance delta p) = maxLifetime p"
  by (simp_all add: advance_def Let_def)

lemma liveCount_no_respawn:
  "liveCount (map (\<lambda>p. if lifetime p \<ge> maxLifetime p then p else f p) ps) \<le> liveCount ps"
  by (induction ps) (auto simp add: liveCount_def)

lemma respawnCount_no_respawn:
  "respawnCount ps (map (\<lambda>p. if lifetime p \<ge> maxLifetime p then p else f p) ps) = 0"
  by (induction ps) simp_all

text \<open>
  C10. With \<open>shipSpeed = 0\<close> and \<open>boosting = false\<close> the budget
  \<open>min(1, ceil(0 * 0.5))\<close> is 0 and the call respawns nothing: every particle whose
  age has reached its maximum age is, after the call, exactly what it was (age,
  position, velocity, colour and the rest), no random number is taken, and the number
  of live particles does not grow.
\<close>

theorem no_respawn_at_rest:
  "particlesPerEmitter False 0 = 0 \<and>
   length (particles (fst (update cfg delta 0 False b r u rs k s))) = length (particles s) \<and>
   (\<forall>i < length (particles s).
      maxLifetime (particles s ! i) \<le> lifetime (particles s ! i) \<longrightarrow>
      particles (fst (update cfg delta 0 False b r u rs k s)) ! i = particles s ! i) \<and>
   respawnCount (particles s) (particles (fst (update cfg delta 0 False b r u rs k s))) = 0 \<and>
   liveCount (particles (fst (update cfg delta 0 False b r u rs k s))) \<le> liveCount (particles s) \<and>
   snd (update cfg delta 0 False b r u rs k s) = k"
proof -
  have f: "particles (fst (update cfg delta 0 False b r u rs k s)) =
      map (\<lambda>p. if lifetime p \<ge> maxLifetime p then p else advance (min delta 0.1) p) (particles s)"
    and g: "snd (update cfg delta 0 False b r u rs k s) = k"
    unfolding update_unfold budget_zero update_loop_no_budget by (simp_all add: Let_def)
  show ?thesis
    unfolding f g
    using liveCount_no_respawn [of "advance (min delta 0.1)" "particles s"]
      respawnCount_no_respawn [of "particles s" "advance (min delta 0.1)"]
    by (simp add: budget_zero)
qed

theorem no_respawn_at_rest_witness:
  "maxLifetime (particles (clearAllParticles (getShipExhaust shipExhaustConfig 2 (\<lambda>_. 1 / 2))) ! 0)
     \<le> lifetime (particles (clearAllParticles (getShipExhaust shipExhaustConfig 2 (\<lambda>_. 1 / 2))) ! 0) \<and>
   particles (fst (update shipExhaustConfig (1 / 60) 0 False None None None (\<lambda>_. 1 / 2) 0
          (clearAllParticles (getShipExhaust shipExhaustConfig 2 (\<lambda>_. 1 / 2))))) ! 0 =
   particles (clearAllParticles (getShipExhaust shipExhaustConfig 2 (\<lambda>_. 1 / 2))) ! 0"
  using no_respawn_at_rest [of shipExhaustConfig "1 / 60" None None None "\<lambda>_. 1 / 2" 0
      "clearAllParticles (getShipExhaust shipExhaustConfig 2 (\<lambda>_. 1 / 2))"]
  unfolding cleared2 by simp

section \<open>Ages of the exhaust particles\<close>

lemma update_loop_nth:
  "length (fst (update_loop cfg delta v budget b r u ep rs ps st)) = length ps \<and>
   (\<forall>i < length ps. \<exists>sti.
      fst (update_loop cfg delta v budget b r u ep rs ps st) ! i =
      fst (update_particle cfg delta v budget b r u ep rs (ps ! i) sti))"
proof (induction ps arbitrary: st)
  case Nil
  then show ?case by simp
next
  case (Cons p ps)
  obtain p1 st1 where h: "update_particle cfg delta v budget b r u ep rs p st = (p1, st1)"
    by (cases "update_particle cfg delta v budget b r u ep rs p st")
  obtain ps2 st2 where t: "update_loop cfg delta v budget b r u ep rs ps st1 = (ps2, st2)"
    by (cases "update_loop cfg delta v budget b r u ep rs ps st1")
  have eq: "fst (update_loop cfg delta v budget b r u ep rs (p # ps) st) = p1 # ps2"
    using h t by simp
  from Cons.IH [of st1] t have len: "length ps2 = length ps"
    and nth: "\<forall>i < length ps. \<exists>sti. ps2 ! i =
      fst (update_particle cfg delta v budget b r u ep rs (ps ! i) sti)"
    by simp_all
  have "\<exists>sti. (p1 # ps2) ! i =
      fst (update_particle cfg delta v budget b r u ep rs ((p # ps) ! i) sti)"
    if "i < length (p # ps)" for i
  proof (cases i)
    case 0
    then show ?thesis using h by (auto intro: exI [of _ st])
  next
    case (Suc j)
    with that nth show ?thesis by simp
  qed
  then show ?case unfolding eq using len by simp
qed

lemma respawn_age:
  "lifetime (respawn cfg v b r u ep rs k p) = 0"
  "maxLifetime (respawn cfg v b r u ep rs k p) =
     rs (k + 3) * (lifetime_max cfg - lifetime_min cfg) + lifetime_min cfg"
  by (simp_all add: respawn_def)

lemma update_particle_age:
  assumes d: "0 \<le> d" and a: "0 \<le> lifetime p"
    and c1: "0 \<le> lifetime_min cfg" and c2: "lifetime_min cfg \<le> lifetime_max cfg"
    and rs: "\<forall>n. 0 \<le> rs n"
  shows "let q = fst (update_particle cfg d v budget b r u ep rs p st) in
     0 \<le> lifetime q \<and>
     (lifetime p < maxLifetime p \<longrightarrow>
        lifetime q = lifetime p + d \<and> maxLifetime q = maxLifetime p) \<and>
     (maxLifetime p \<le> lifetime p \<longrightarrow> q = p \<or> lifetime q = 0) \<and>
     (lifetime p \<le> lifetime q \<or> lifetime q = 0) \<and>
     (q = p \<or> lifetime q \<le> maxLifetime q + d)"
proof -
  have m: "0 \<le> rs (k + 3) * (lifetime_max cfg - lifetime_min cfg) + lifetime_min cfg" for k
    using c1 c2 rs by simp
  show ?thesis
    using d a m [of "cursor st"]
    by (simp add: update_particle_def Let_def respawn_age advance_lifetime advance_maxLifetime)
qed

text \<open>
  C4, as the code has it. Take a call of \<open>update\<close> with \<open>dt \<ge> 0\<close> on a pool whose
  ages are not negative, with a lifetime range \<open>0 \<le> min \<le> max\<close> and random numbers
  that are not negative. After the call every particle's age is not negative. A live
  particle has aged by the clamped \<open>dt\<close> and kept its maximum age; a dead one is
  either untouched or respawned with age exactly 0. So the age has not decreased
  unless a respawn set it to 0, and every particle the call touched is within one
  clamped \<open>dt\<close> of its maximum age. A dead particle that is not respawned keeps the
  age it had, which after \<open>clearAllParticles\<close> is its maximum age plus 1.
\<close>

theorem age_after_step:
  assumes "0 \<le> delta" and "\<forall>p \<in> set (particles s). 0 \<le> lifetime p"
    and "0 \<le> lifetime_min cfg" and "lifetime_min cfg \<le> lifetime_max cfg"
    and "\<forall>n. 0 \<le> rs n"
  shows "\<forall>i < length (particles s).
     (let p = particles s ! i;
          q = particles (fst (update cfg delta v isBoost b r u rs k s)) ! i
      in 0 \<le> lifetime q \<and>
         (lifetime p < maxLifetime p \<longrightarrow>
            lifetime q = lifetime p + min delta 0.1 \<and> maxLifetime q = maxLifetime p) \<and>
         (maxLifetime p \<le> lifetime p \<longrightarrow> q = p \<or> lifetime q = 0) \<and>
         (lifetime p \<le> lifetime q \<or> lifetime q = 0) \<and>
         (q = p \<or> lifetime q \<le> maxLifetime q + min delta 0.1))"
proof (intro allI impI)
  fix i assume i: "i < length (particles s)"
  let ?d = "min delta 0.1"
  let ?B = "particlesPerEmitter isBoost v"
  let ?st = "\<lparr>spawned = activeParticles s, cursor = k, activeCount = 0\<rparr>"
  have f: "particles (fst (update cfg delta v isBoost b r u rs k s)) =
      fst (update_loop cfg ?d v ?B b r u (emitterPositions s) rs (particles s) ?st)"
    unfolding update_unfold by (simp add: Let_def)
  from update_loop_nth [of cfg ?d v ?B b r u "emitterPositions s" rs "particles s" ?st] i
  obtain sti where n: "fst (update_loop cfg ?d v ?B b r u (emitterPositions s) rs (particles s) ?st) ! i
      = fst (update_particle cfg ?d v ?B b r u (emitterPositions s) rs (particles s ! i) sti)"
    by blast
  have d: "0 \<le> ?d" using assms(1) by simp
  have a: "0 \<le> lifetime (particles s ! i)" using assms(2) i by simp
  show "let p = particles s ! i;
          q = particles (fst (update cfg delta v isBoost b r u rs k s)) ! i
      in 0 \<le> lifetime q \<and>
         (lifetime p < maxLifetime p \<longrightarrow>
            lifetime q = lifetime p + min delta 0.1 \<and> maxLifetime q = maxLifetime p) \<and>
         (maxLifetime p \<le> lifetime p \<longrightarrow> q = p \<or> lifetime q = 0) \<and>
         (lifetime p \<le> lifetime q \<or> lifetime q = 0) \<and>
         (q = p \<or> lifetime q \<le> maxLifetime q + min delta 0.1)"
    unfolding f n
    using update_particle_age [OF d a assms(3) assms(4) assms(5), of v ?B b r u "emitterPositions s" sti]
    by (simp add: Let_def)
qed

text \<open>
  After a clear and one call, the first particle of a pool of two is live with age 0;
  the next call, with \<open>dt = 1/60\<close>, leaves it at age \<open>1/60\<close>.
\<close>

theorem age_after_step_witness:
  "0 \<le> (1 / 60 :: real) \<and>
   list_all (\<lambda>p. 0 \<le> lifetime p)
     (particles (fst (update shipExhaustConfig (1 / 60) 0.4 False None None None (\<lambda>_. 1 / 2) 0
          (clearAllParticles (getShipExhaust shipExhaustConfig 2 (\<lambda>_. 1 / 2)))))) \<and>
   0 \<le> lifetime_min shipExhaustConfig \<and>
   lifetime_min shipExhaustConfig \<le> lifetime_max shipExhaustConfig \<and>
   (\<forall>n::nat. (0::real) \<le> 1 / 2) \<and>
   lifetime (particles (fst (update shipExhaustConfig (1 / 60) 0.4 False None None None (\<lambda>_. 1 / 2) 4
      (fst (update shipExhaustConfig (1 / 60) 0.4 False None None None (\<lambda>_. 1 / 2) 0
          (clearAllParticles (getShipExhaust shipExhaustConfig 2 (\<lambda>_. 1 / 2))))))) ! 0) = 1 / 60"
proof -
  let ?s = "fst (update shipExhaustConfig (1 / 60) 0.4 False None None None (\<lambda>_. 1 / 2) 0
          (clearAllParticles (getShipExhaust shipExhaustConfig 2 (\<lambda>_. 1 / 2))))"
  have h1: "0 \<le> (1 / 60 :: real)" by simp
  have h2: "\<forall>p \<in> set (particles ?s). 0 \<le> lifetime p"
    unfolding step_cleared2 by simp
  have h3: "0 \<le> lifetime_min shipExhaustConfig"
    and h4: "lifetime_min shipExhaustConfig \<le> lifetime_max shipExhaustConfig"
    by (simp_all add: shipExhaustConfig_def)
  have h5: "\<forall>n::nat. (0::real) \<le> (\<lambda>_. 1 / 2) n" by simp
  have i: "0 < length (particles ?s)"
    and l: "lifetime (particles ?s ! 0) < maxLifetime (particles ?s ! 0)"
    and z: "lifetime (particles ?s ! 0) = 0"
    unfolding step_cleared2 by simp_all
  from age_after_step [OF h1 h2 h3 h4 h5, of "0.4" False None None None 4, rule_format, OF i]
  have "lifetime (particles ?s ! 0) < maxLifetime (particles ?s ! 0) \<longrightarrow>
        lifetime (particles (fst (update shipExhaustConfig (1 / 60) 0.4 False None None None
          (\<lambda>_. 1 / 2) 4 ?s)) ! 0) = lifetime (particles ?s ! 0) + min (1 / 60) 0.1"
    by (simp add: Let_def)
  with l z have "lifetime (particles (fst (update shipExhaustConfig (1 / 60) 0.4 False None None None
          (\<lambda>_. 1 / 2) 4 ?s)) ! 0) = 1 / 60"
    by simp
  with h1 h2 h3 h4 h5 show ?thesis by (simp add: list_all_iff)
qed

text \<open>
  After a clear and one call at the cruise speed, the second particle of a pool of two
  has not been respawned (the budget was 1): its age is \<open>31/20\<close>, its maximum age
  \<open>11/20\<close>, and the clamped \<open>dt\<close> \<open>1/60\<close>.
\<close>

theorem cleared_age_counterexample:
  "lifetime (particles (fst (update shipExhaustConfig (1 / 60) 0.4 False None None None (\<lambda>_. 1 / 2) 0
          (clearAllParticles (getShipExhaust shipExhaustConfig 2 (\<lambda>_. 1 / 2))))) ! 1) = 31 / 20 \<and>
   maxLifetime (particles (fst (update shipExhaustConfig (1 / 60) 0.4 False None None None (\<lambda>_. 1 / 2) 0
          (clearAllParticles (getShipExhaust shipExhaustConfig 2 (\<lambda>_. 1 / 2))))) ! 1) = 11 / 20 \<and>
   min (1 / 60) 0.1 = (1 / 60 :: real) \<and> \<not> (31 / 20 \<le> 11 / 20 + (1 / 60 :: real))"
  unfolding step_cleared2 by simp

section \<open>The clamp of the frame delta\<close>

text \<open>
  C5, as the code has it. The exhaust update clamps the frame delta to 0.1: for every
  \<open>dt > 0.1\<close>, with the other inputs and the random numbers the same, the call with
  \<open>dt\<close> returns exactly what the call with \<open>dt = 0.1\<close> returns. The sun eruption
  update has no clamp: a particle that outlives the step has its remaining life
  reduced by \<open>dt\<close> itself and its position advanced by \<open>velocity * dt * 15\<close>,
  however large \<open>dt\<close> is.
\<close>

theorem exhaust_clamps_delta:
  "0.1 < delta \<Longrightarrow>
     update cfg delta v isBoost b r u rs k s = update cfg 0.1 v isBoost b r u rs k s \<and>
     (0 < e_current p - delta \<longrightarrow>
        e_current (fst (eruption_step delta rs p j)) = e_current p - delta \<and>
        e_position (fst (eruption_step delta rs p j)) =
          vec (x (e_position p) + x (e_velocity p) * delta * 15)
              (y (e_position p) + y (e_velocity p) * delta * 15)
              (z (e_position p) + z (e_velocity p) * delta * 15))"
  by (simp add: update_def eruption_step_def Let_def)

theorem exhaust_clamps_delta_witness:
  "(0.1::real) < 1 \<and>
   update shipExhaustConfig 1 0.4 False None None None (\<lambda>_. 1 / 2) 0
     (getShipExhaust shipExhaustConfig 2 (\<lambda>_. 1 / 2)) =
   update shipExhaustConfig 0.1 0.4 False None None None (\<lambda>_. 1 / 2) 0
     (getShipExhaust shipExhaustConfig 2 (\<lambda>_. 1 / 2)) \<and>
   0 < e_current \<lparr>e_position = vec 100 0 0, e_velocity = vec 1 0 0, e_size = 3,
          e_current = 2, e_max = 3\<rparr> - (1::real) \<and>
   e_current (fst (eruption_step 1 (\<lambda>_. 1 / 2)
      \<lparr>e_position = vec 100 0 0, e_velocity = vec 1 0 0, e_size = 3,
          e_current = 2, e_max = 3\<rparr> 0)) = 1"
  using exhaust_clamps_delta [of 1 shipExhaustConfig "0.4" False None None None "\<lambda>_. 1 / 2" 0
      "getShipExhaust shipExhaustConfig 2 (\<lambda>_. 1 / 2)"
      "\<lparr>e_position = vec 100 0 0, e_velocity = vec 1 0 0, e_size = 3, e_current = 2, e_max = 3\<rparr>" 0]
  by simp

text \<open>
  One eruption particle with half a second of life left, and the same random numbers:
  the step with \<open>dt = 1\<close> respawns it (remaining life \<open>5/2\<close>), the step with
  \<open>dt = 0.1\<close> does not (remaining life \<open>2/5\<close>).
\<close>

theorem eruption_unclamped_counterexample:
  "(0.1::real) < 1 \<and>
   e_current (hd (fst (eruption_update 1 (\<lambda>_. 1 / 2)
      [\<lparr>e_position = vec 100 0 0, e_velocity = vec 1 0 0, e_size = 3,
          e_current = 1 / 2, e_max = 1\<rparr>] 0))) = 5 / 2 \<and>
   e_current (hd (fst (eruption_update 0.1 (\<lambda>_. 1 / 2)
      [\<lparr>e_position = vec 100 0 0, e_velocity = vec 1 0 0, e_size = 3,
          e_current = 1 / 2, e_max = 1\<rparr>] 0))) = 2 / 5"
  by (simp add: eruption_step_def Let_def)

section \<open>The sun eruption update\<close>

lemma eruption_update_nth:
  "length (fst (eruption_update delta rs ps k)) = length ps \<and>
   (\<forall>i < length ps. \<exists>j.
      fst (eruption_update delta rs ps k) ! i = fst (eruption_step delta rs (ps ! i) j))"
proof (induction ps arbitrary: k)
  case Nil
  then show ?case by simp
next
  case (Cons p ps)
  obtain p1 k1 where h: "eruption_step delta rs p k = (p1, k1)"
    by (cases "eruption_step delta rs p k")
  obtain ps2 k2 where t: "eruption_update delta rs ps k1 = (ps2, k2)"
    by (cases "eruption_update delta rs ps k1")
  have eq: "fst (eruption_update delta rs (p # ps) k) = p1 # ps2"
    using h t by simp
  from Cons.IH [of k1] t have len: "length ps2 = length ps"
    and nth: "\<forall>i < length ps. \<exists>j. ps2 ! i = fst (eruption_step delta rs (ps ! i) j)"
    by simp_all
  have "\<exists>j. (p1 # ps2) ! i = fst (eruption_step delta rs ((p # ps) ! i) j)"
    if "i < length (p # ps)" for i
  proof (cases i)
    case 0
    then show ?thesis using h by (auto intro: exI [of _ k])
  next
    case (Suc m)
    with that nth show ?thesis by simp
  qed
  then show ?case unfolding eq using len by simp
qed

lemma sphere_sum:
  fixes a b c d :: real
  assumes "c * c + d * d = 1" and "a * a + b * b = 1"
  shows "100 * a * c * (100 * a * c) + 100 * a * d * (100 * a * d) + 100 * b * (100 * b) = 100 * 100"
proof -
  have "100 * a * c * (100 * a * c) + 100 * a * d * (100 * a * d) + 100 * b * (100 * b)
      = 100 * 100 * (a * a * (c * c + d * d) + b * b)"
    by (simp add: algebra_simps)
  also have "\<dots> = 100 * 100" unfolding assms(1) using assms(2) by simp
  finally show ?thesis .
qed

lemma vlength_sphere:
  "vlength (vec (100 * sin phi * cos theta) (100 * sin phi * sin theta) (100 * cos phi)) = 100"
proof -
  have "100 * sin phi * cos theta * (100 * sin phi * cos theta) +
        100 * sin phi * sin theta * (100 * sin phi * sin theta) +
        100 * cos phi * (100 * cos phi) = 100 * 100"
    by (rule sphere_sum) (simp_all only: sin_cos_squared_add3 sin_cos_squared_add2 add.commute)
  then show ?thesis by (simp add: vlength_def vec_def)
qed

lemma eruption_step_respawn:
  assumes "\<forall>n. 0 \<le> rs n \<and> rs n < 1" and "e_current p - delta \<le> 0"
  shows "e_position (fst (eruption_step delta rs p j)) =
       vec (100 * sin (arccos (2 * rs (j + 1) - 1)) * cos (rs j * pi * 2))
           (100 * sin (arccos (2 * rs (j + 1) - 1)) * sin (rs j * pi * 2))
           (100 * cos (arccos (2 * rs (j + 1) - 1))) \<and>
     vlength (e_position (fst (eruption_step delta rs p j))) = 100 \<and>
     e_velocity (fst (eruption_step delta rs p j)) =
       vec (x (e_position (fst (eruption_step delta rs p j))) * 0.01)
           (y (e_position (fst (eruption_step delta rs p j))) * 0.01)
           (z (e_position (fst (eruption_step delta rs p j))) * 0.01) \<and>
     1 \<le> e_max (fst (eruption_step delta rs p j)) \<and>
     e_max (fst (eruption_step delta rs p j)) \<le> 4 \<and>
     e_current (fst (eruption_step delta rs p j)) = e_max (fst (eruption_step delta rs p j))"
proof -
  have a: "0 \<le> rs (j + 2)" "rs (j + 2) < 1" using assms(1) by simp_all
  show ?thesis
    using assms(2) a vlength_sphere [of "arccos (2 * rs (j + 1) - 1)" "rs j * pi * 2"]
    by (simp add: eruption_step_def Let_def vec_def)
qed

lemma eruption_step_alive:
  assumes "\<forall>n. 0 \<le> rs n \<and> rs n < 1" and "0 < e_current p - delta"
  shows "e_current (fst (eruption_step delta rs p j)) = e_current p - delta \<and>
     e_max (fst (eruption_step delta rs p j)) = e_max p \<and>
     e_velocity (fst (eruption_step delta rs p j)) = e_velocity p \<and>
     e_position (fst (eruption_step delta rs p j)) =
       vec (x (e_position p) + x (e_velocity p) * delta * 15)
           (y (e_position p) + y (e_velocity p) * delta * 15)
           (z (e_position p) + z (e_velocity p) * delta * 15) \<and>
     e_size (fst (eruption_step delta rs p j)) =
       (2 + rs j * 3) * (e_current (fst (eruption_step delta rs p j)) /
                         e_max (fst (eruption_step delta rs p j))) \<and>
     2 \<le> 2 + rs j * 3 \<and> 2 + rs j * 3 < 5"
proof -
  have a: "0 \<le> rs j" "rs j < 1" using assms(1) by simp_all
  show ?thesis using assms(2) a by (simp add: eruption_step_def Let_def)
qed

lemma eruption_step_cursor:
  "snd (eruption_step delta rs p k) = k + eruption_draws delta p"
  by (simp add: eruption_step_def eruption_draws_def Let_def)

lemma eruption_cursor_Suc:
  "i < length ps \<Longrightarrow>
   eruption_cursor delta ps k (Suc i) = eruption_cursor delta ps k i + eruption_draws delta (ps ! i)"
  by (simp add: eruption_cursor_def take_Suc_conv_app_nth)

lemma eruption_update_cursor:
  "snd (eruption_update delta rs ps k) = eruption_cursor delta ps k (length ps) \<and>
   (\<forall>i < length ps.
      fst (eruption_update delta rs ps k) ! i =
      fst (eruption_step delta rs (ps ! i) (eruption_cursor delta ps k i)))"
proof (induction ps arbitrary: k)
  case Nil
  then show ?case by (simp add: eruption_cursor_def)
next
  case (Cons p ps)
  obtain p1 k1 where h: "eruption_step delta rs p k = (p1, k1)"
    by (cases "eruption_step delta rs p k")
  obtain ps2 k2 where t: "eruption_update delta rs ps k1 = (ps2, k2)"
    by (cases "eruption_update delta rs ps k1")
  have k1: "k1 = k + eruption_draws delta p"
    using eruption_step_cursor [of delta rs p k] h by simp
  have eq: "eruption_update delta rs (p # ps) k = (p1 # ps2, k2)"
    using h t by simp
  have shift: "eruption_cursor delta (p # ps) k (Suc m) = eruption_cursor delta ps k1 m" for m
    by (simp add: eruption_cursor_def k1)
  from Cons.IH [of k1] t have fin: "k2 = eruption_cursor delta ps k1 (length ps)"
    and nth: "\<forall>i < length ps. ps2 ! i =
        fst (eruption_step delta rs (ps ! i) (eruption_cursor delta ps k1 i))"
    by simp_all
  have "(p1 # ps2) ! i =
      fst (eruption_step delta rs ((p # ps) ! i) (eruption_cursor delta (p # ps) k i))"
    if "i < length (p # ps)" for i
  proof (cases i)
    case 0
    then show ?thesis using h by (simp add: eruption_cursor_def)
  next
    case (Suc m)
    with that nth show ?thesis by (simp add: shift)
  qed
  moreover have "k2 = eruption_cursor delta (p # ps) k (length (p # ps))"
    using fin by (simp add: shift)
  ultimately show ?case unfolding eq by simp
qed

lemma eruption_step_respawn_draws:
  "e_current p - delta \<le> 0 \<Longrightarrow>
   e_max (fst (eruption_step delta rs p j)) = 1 + rs (j + 2) * 3 \<and>
   e_size (fst (eruption_step delta rs p j)) = 2 + rs (j + 3) * 3"
  by (simp add: eruption_step_def Let_def)

text \<open>
  C8, as the code has it. With random numbers in \<open>[0, 1)\<close>, a step of the eruption
  system keeps the size of the pool and treats each particle by its remaining life
  less \<open>dt\<close>, with random numbers of its own: particle \<open>i\<close> reads from the cursor
  \<open>j\<close> at which the particles before it have left the source, and the next particle
  reads after it. If the remaining life less \<open>dt\<close> is 0 or less, the particle is
  respawned from four numbers: at the point of the sphere of radius 100 with angles
  \<open>theta = rs j * 2 * pi\<close> and \<open>phi = arccos (2 * rs (j + 1) - 1)\<close> (the sampling
  that is uniform on the sphere for uniform random numbers), with velocity
  \<open>0.01 * position\<close>, with the new lifetime \<open>1 + rs (j + 2) * 3\<close> in \<open>[1, 4]\<close>,
  which is also its remaining life, and with the new size \<open>2 + rs (j + 3) * 3\<close>.
  Otherwise it takes one number: its remaining life is the old one less \<open>dt\<close>, its
  position is advanced by \<open>velocity * dt * 15\<close>, and its size is set to a base size
  drawn afresh from \<open>[2, 5)\<close> times the ratio of remaining life to lifetime. The old
  size is not read.
\<close>

theorem eruption_update_step:
  assumes "\<forall>n. 0 \<le> rs n \<and> rs n < 1"
  shows "length (fst (eruption_update delta rs ps k)) = length ps \<and>
   snd (eruption_update delta rs ps k) = eruption_cursor delta ps k (length ps) \<and>
   (\<forall>i < length ps.
      (let p = ps ! i; q = fst (eruption_update delta rs ps k) ! i;
           j = eruption_cursor delta ps k i in
       eruption_cursor delta ps k (Suc i) = j + eruption_draws delta p \<and>
       (e_current p - delta \<le> 0 \<longrightarrow>
          eruption_draws delta p = 4 \<and>
          e_position q =
            vec (100 * sin (arccos (2 * rs (j + 1) - 1)) * cos (rs j * pi * 2))
                (100 * sin (arccos (2 * rs (j + 1) - 1)) * sin (rs j * pi * 2))
                (100 * cos (arccos (2 * rs (j + 1) - 1))) \<and>
          vlength (e_position q) = 100 \<and>
          e_velocity q =
            vec (x (e_position q) * 0.01) (y (e_position q) * 0.01) (z (e_position q) * 0.01) \<and>
          e_max q = 1 + rs (j + 2) * 3 \<and> 1 \<le> e_max q \<and> e_max q \<le> 4 \<and>
          e_current q = e_max q \<and> e_size q = 2 + rs (j + 3) * 3) \<and>
       (0 < e_current p - delta \<longrightarrow>
          eruption_draws delta p = 1 \<and>
          e_current q = e_current p - delta \<and> e_max q = e_max p \<and>
          e_velocity q = e_velocity p \<and>
          e_position q =
            vec (x (e_position p) + x (e_velocity p) * delta * 15)
                (y (e_position p) + y (e_velocity p) * delta * 15)
                (z (e_position p) + z (e_velocity p) * delta * 15) \<and>
          e_size q = (2 + rs j * 3) * (e_current q / e_max q) \<and>
          2 \<le> 2 + rs j * 3 \<and> 2 + rs j * 3 < 5)))"
proof (intro conjI allI impI)
  show "length (fst (eruption_update delta rs ps k)) = length ps"
    using eruption_update_nth by blast
next
  show "snd (eruption_update delta rs ps k) = eruption_cursor delta ps k (length ps)"
    using eruption_update_cursor by blast
next
  fix i assume i: "i < length ps"
  let ?j = "eruption_cursor delta ps k i"
  have q: "fst (eruption_update delta rs ps k) ! i = fst (eruption_step delta rs (ps ! i) ?j)"
    using eruption_update_cursor [of delta rs ps k] i by blast
  have d4: "eruption_draws delta (ps ! i) = 4" if "e_current (ps ! i) - delta \<le> 0"
    using that by (simp add: eruption_draws_def)
  have d1: "eruption_draws delta (ps ! i) = 1" if "0 < e_current (ps ! i) - delta"
    using that by (simp add: eruption_draws_def)
  show "let p = ps ! i; q = fst (eruption_update delta rs ps k) ! i;
           j = eruption_cursor delta ps k i in
       eruption_cursor delta ps k (Suc i) = j + eruption_draws delta p \<and>
       (e_current p - delta \<le> 0 \<longrightarrow>
          eruption_draws delta p = 4 \<and>
          e_position q =
            vec (100 * sin (arccos (2 * rs (j + 1) - 1)) * cos (rs j * pi * 2))
                (100 * sin (arccos (2 * rs (j + 1) - 1)) * sin (rs j * pi * 2))
                (100 * cos (arccos (2 * rs (j + 1) - 1))) \<and>
          vlength (e_position q) = 100 \<and>
          e_velocity q =
            vec (x (e_position q) * 0.01) (y (e_position q) * 0.01) (z (e_position q) * 0.01) \<and>
          e_max q = 1 + rs (j + 2) * 3 \<and> 1 \<le> e_max q \<and> e_max q \<le> 4 \<and>
          e_current q = e_max q \<and> e_size q = 2 + rs (j + 3) * 3) \<and>
       (0 < e_current p - delta \<longrightarrow>
          eruption_draws delta p = 1 \<and>
          e_current q = e_current p - delta \<and> e_max q = e_max p \<and>
          e_velocity q = e_velocity p \<and>
          e_position q =
            vec (x (e_position p) + x (e_velocity p) * delta * 15)
                (y (e_position p) + y (e_velocity p) * delta * 15)
                (z (e_position p) + z (e_velocity p) * delta * 15) \<and>
          e_size q = (2 + rs j * 3) * (e_current q / e_max q) \<and>
          2 \<le> 2 + rs j * 3 \<and> 2 + rs j * 3 < 5)"
    unfolding Let_def q
    using eruption_step_respawn [OF assms, of "ps ! i" delta ?j]
      eruption_step_respawn_draws [of "ps ! i" delta rs ?j]
      eruption_step_alive [OF assms, of "ps ! i" delta ?j]
      eruption_cursor_Suc [OF i, of delta k] d4 d1
    by blast
qed

text \<open>
  Two particles and a step with \<open>dt = 1\<close>: the first outlives the step and moves from
  \<open>(100, 0, 0)\<close> to \<open>(115, 0, 0)\<close> on one random number, the second is respawned
  on the sphere on four more.
\<close>

theorem eruption_update_step_witness:
  "(\<forall>n::nat. (0::real) \<le> 1 / 2 \<and> (1 / 2 :: real) < 1) \<and>
   e_current \<lparr>e_position = vec 100 0 0, e_velocity = vec 1 0 0, e_size = 3,
        e_current = 2, e_max = 3\<rparr> - (1::real) > 0 \<and>
   e_current \<lparr>e_position = vec 100 0 0, e_velocity = vec 1 0 0, e_size = 3,
        e_current = 1 / 2, e_max = 1\<rparr> - 1 \<le> (0::real) \<and>
   e_position (fst (eruption_update 1 (\<lambda>_. 1 / 2)
      [\<lparr>e_position = vec 100 0 0, e_velocity = vec 1 0 0, e_size = 3, e_current = 2, e_max = 3\<rparr>,
       \<lparr>e_position = vec 100 0 0, e_velocity = vec 1 0 0, e_size = 3,
        e_current = 1 / 2, e_max = 1\<rparr>] 0) ! 0) = vec 115 0 0 \<and>
   vlength (e_position (fst (eruption_update 1 (\<lambda>_. 1 / 2)
      [\<lparr>e_position = vec 100 0 0, e_velocity = vec 1 0 0, e_size = 3, e_current = 2, e_max = 3\<rparr>,
       \<lparr>e_position = vec 100 0 0, e_velocity = vec 1 0 0, e_size = 3,
        e_current = 1 / 2, e_max = 1\<rparr>] 0) ! 1)) = 100 \<and>
   snd (eruption_update 1 (\<lambda>_. 1 / 2)
      [\<lparr>e_position = vec 100 0 0, e_velocity = vec 1 0 0, e_size = 3, e_current = 2, e_max = 3\<rparr>,
       \<lparr>e_position = vec 100 0 0, e_velocity = vec 1 0 0, e_size = 3,
        e_current = 1 / 2, e_max = 1\<rparr>] 0) = 5"
proof -
  let ?rs = "\<lambda>_::nat. 1 / 2 :: real"
  let ?a = "\<lparr>e_position = vec 100 0 0, e_velocity = vec 1 0 0, e_size = 3,
        e_current = 2, e_max = 3\<rparr>"
  let ?p = "\<lparr>e_position = vec 100 0 0, e_velocity = vec 1 0 0, e_size = 3,
        e_current = 1 / 2, e_max = 1\<rparr>"
  have h: "\<forall>n. 0 \<le> ?rs n \<and> ?rs n < 1" by simp
  note T = eruption_update_step [OF h, of 1 "[?a, ?p]" 0]
  from T have c: "snd (eruption_update 1 ?rs [?a, ?p] 0) = 5"
    by (simp add: eruption_cursor_def eruption_draws_def)
  from T have n: "\<forall>i < length [?a, ?p].
      (let p = [?a, ?p] ! i; q = fst (eruption_update 1 ?rs [?a, ?p] 0) ! i in
       (e_current p - 1 \<le> 0 \<longrightarrow> vlength (e_position q) = 100) \<and>
       (0 < e_current p - 1 \<longrightarrow>
          e_position q =
            vec (x (e_position p) + x (e_velocity p) * 1 * 15)
                (y (e_position p) + y (e_velocity p) * 1 * 15)
                (z (e_position p) + z (e_velocity p) * 1 * 15)))"
    unfolding Let_def by blast
  from n [rule_format, of 0]
  have a: "e_position (fst (eruption_update 1 ?rs [?a, ?p] 0) ! 0) = vec 115 0 0"
    by (simp add: Let_def vec_def del: eruption_update.simps)
  from n [rule_format, of 1]
  have b: "vlength (e_position (fst (eruption_update 1 ?rs [?a, ?p] 0) ! 1)) = 100"
    by (simp add: Let_def del: eruption_update.simps)
  from a b c show ?thesis by simp
qed

text \<open>
  One particle with one second left of a lifetime of four, two steps with
  \<open>dt = 1/10\<close>, and a random source that gives 0 first and \<open>9/10\<close> after: the first
  step sets the size to \<open>9/20\<close>, the second to \<open>47/50\<close>. The size has grown while
  the remaining life fell from \<open>9/10\<close> to \<open>4/5\<close>.
\<close>

theorem eruption_size_grows_counterexample:
  "e_size (fst (eruption_update (1 / 10) (\<lambda>n. if n = 0 then 0 else 9 / 10)
      [\<lparr>e_position = vec 100 0 0, e_velocity = vec 1 0 0, e_size = 3,
        e_current = 1, e_max = 4\<rparr>] 0) ! 0) = 9 / 20 \<and>
   e_current (fst (eruption_update (1 / 10) (\<lambda>n. if n = 0 then 0 else 9 / 10)
      [\<lparr>e_position = vec 100 0 0, e_velocity = vec 1 0 0, e_size = 3,
        e_current = 1, e_max = 4\<rparr>] 0) ! 0) = 9 / 10 \<and>
   snd (eruption_update (1 / 10) (\<lambda>n. if n = 0 then 0 else 9 / 10)
      [\<lparr>e_position = vec 100 0 0, e_velocity = vec 1 0 0, e_size = 3,
        e_current = 1, e_max = 4\<rparr>] 0) = 1 \<and>
   e_size (fst (eruption_update (1 / 10) (\<lambda>n. if n = 0 then 0 else 9 / 10)
      (fst (eruption_update (1 / 10) (\<lambda>n. if n = 0 then 0 else 9 / 10)
         [\<lparr>e_position = vec 100 0 0, e_velocity = vec 1 0 0, e_size = 3,
           e_current = 1, e_max = 4\<rparr>] 0)) 1) ! 0) = 47 / 50 \<and>
   e_current (fst (eruption_update (1 / 10) (\<lambda>n. if n = 0 then 0 else 9 / 10)
      (fst (eruption_update (1 / 10) (\<lambda>n. if n = 0 then 0 else 9 / 10)
         [\<lparr>e_position = vec 100 0 0, e_velocity = vec 1 0 0, e_size = 3,
           e_current = 1, e_max = 4\<rparr>] 0)) 1) ! 0) = 4 / 5 \<and>
   (9 / 20 :: real) < 47 / 50"
  by (simp add: eruption_step_def Let_def)

section \<open>The ship while stopped\<close>

lemma shipTranslation_stop:
  "stop c \<Longrightarrow> shipTranslation now c wd p = p\<lparr>y := sin (now * 0.001) * floatAmount c\<rparr>"
  by (simp add: shipTranslation_def Let_def)

text \<open>
  C2, as the code has it. While \<open>stop\<close> is true a frame applies no forward and no
  sideways translation: the x and z coordinates of the ship's position are unchanged.
  The float effect is not guarded by \<open>stop\<close>: the frame sets the y coordinate to
  \<open>sin (now * 0.001) * floatAmount\<close>, where \<open>floatAmount\<close> is 0 while a pitch key is
  held and 2 otherwise, so y stays within 2 of zero.
\<close>

theorem stop_keeps_x_and_z:
  "stop c \<Longrightarrow>
     shipPosition (animate_ship now c wd cr s) =
       (shipPosition s)\<lparr>y := sin (now * 0.001) * floatAmount c\<rparr> \<and>
     x (shipPosition (animate_ship now c wd cr s)) = x (shipPosition s) \<and>
     z (shipPosition (animate_ship now c wd cr s)) = z (shipPosition s) \<and>
     y (shipPosition (animate_ship now c wd cr s)) = sin (now * 0.001) * floatAmount c \<and>
     \<bar>y (shipPosition (animate_ship now c wd cr s))\<bar> \<le> 2"
proof -
  assume st: "stop c"
  have "\<bar>sin (now * 0.001) * floatAmount c\<bar> \<le> 2"
    using abs_sin_le_one [of "now * 0.001"] by (simp add: floatAmount_def abs_mult)
  then show ?thesis
    by (simp add: animate_ship_def shipTranslation_stop [OF st])
qed

theorem stop_keeps_x_and_z_witness:
  "stop (fst (handleKeyDown Space
      (initialControls, getShipExhaust shipExhaustConfig 2 (\<lambda>_. 1 / 2)))) \<and>
   shipPosition (animate_ship 0
      (fst (handleKeyDown Space (initialControls, getShipExhaust shipExhaustConfig 2 (\<lambda>_. 1 / 2))))
      (vec 0 0 1) (Quaternion 0 0 0 1)
      \<lparr>shipPosition = vec 400 0 60, shipQuaternion = Quaternion 0 0 0 1\<rparr>) = vec 400 0 60"
  using stop_keeps_x_and_z [of
     "fst (handleKeyDown Space (initialControls, getShipExhaust shipExhaustConfig 2 (\<lambda>_. 1 / 2)))"
     0 "vec 0 0 1" "Quaternion 0 0 0 1"
     "\<lparr>shipPosition = vec 400 0 60, shipQuaternion = Quaternion 0 0 0 1\<rparr>"]
  by (simp add: vec_def)

text \<open>
  Space is pressed while the ship is at \<open>(400, 20, 60)\<close>; the next frame, at
  \<open>now = 0\<close>, moves it to \<open>(400, 0, 60)\<close>.
\<close>

theorem stop_float_counterexample:
  "stop (fst (handleKeyDown Space
      (initialControls, getShipExhaust shipExhaustConfig 2 (\<lambda>_. 1 / 2)))) \<and>
   shipPosition (animate_ship 0
      (fst (handleKeyDown Space (initialControls, getShipExhaust shipExhaustConfig 2 (\<lambda>_. 1 / 2))))
      (vec 0 0 1) (Quaternion 0 0 0 1)
      \<lparr>shipPosition = vec 400 20 60, shipQuaternion = Quaternion 0 0 0 1\<rparr>) = vec 400 0 60 \<and>
   vec 400 0 60 \<noteq> vec 400 20 60"
  by (simp add: animate_ship_def shipTranslation_def Let_def vec_def)

section \<open>Smoothing of the ship's orientation\<close>





section \<open>The camera\<close>

text \<open>
  C7. When \<open>boost\<close> is false the camera position after the update is exactly the
  offset \<open>(0, 1, 2)\<close> transformed by the ship's world matrix, whatever the camera
  position was, so a second update with the same matrix leaves it there. When
  \<open>boost\<close> is true the camera position is the linear interpolation from its old
  value toward that target with factor 0.05. In both cases the camera is then pointed
  at the ship's position, the one the frame has just computed.
\<close>

theorem camera_follow_modes:
  "(\<not> boost c \<longrightarrow>
      cameraPosition (camera_follow c M sp cam) = applyMatrix4 cameraOffset M \<and>
      cameraPosition (camera_follow c M sp' (camera_follow c M sp cam)) =
        applyMatrix4 cameraOffset M) \<and>
   (boost c \<longrightarrow>
      cameraPosition (camera_follow c M sp cam) =
        lerp (cameraPosition cam) (applyMatrix4 cameraOffset M) 0.05) \<and>
   cameraLookAt (camera_follow c M sp cam) = sp \<and>
   cameraLookAt (snd (animate_ship_camera now c wd cr M (s, cam))) =
     shipPosition (fst (animate_ship_camera now c wd cr M (s, cam))) \<and>
   fst (animate_ship_camera now c wd cr M (s, cam)) = animate_ship now c wd cr s"
  by (simp add: camera_follow_def animate_ship_camera_def Let_def)

theorem camera_follow_modes_witness:
  "\<not> boost initialControls \<and>
   cameraPosition (camera_follow initialControls
      (\<lambda>i. if i = 0 \<or> i = 5 \<or> i = 10 \<or> i = 15 then 1 else 0) (vec 0 0 0)
      \<lparr>cameraPosition = vec 0 0 500, cameraLookAt = vec 0 0 0\<rparr>) = vec 0 1 2 \<and>
   boost (fst (handleKeyDown ShiftLeft
      (initialControls, getShipExhaust shipExhaustConfig 2 (\<lambda>_. 1 / 2)))) \<and>
   cameraPosition (camera_follow
      (fst (handleKeyDown ShiftLeft
         (initialControls, getShipExhaust shipExhaustConfig 2 (\<lambda>_. 1 / 2))))
      (\<lambda>i. if i = 0 \<or> i = 5 \<or> i = 10 \<or> i = 15 then 1 else 0) (vec 0 0 0)
      \<lparr>cameraPosition = vec 0 0 500, cameraLookAt = vec 0 0 0\<rparr>) = vec 0 (1 / 20) (4751 / 10)"
  using camera_follow_modes [of initialControls
      "\<lambda>i. if i = 0 \<or> i = 5 \<or> i = 10 \<or> i = 15 then 1 else 0" "vec 0 0 0"
      "\<lparr>cameraPosition = vec 0 0 500, cameraLookAt = vec 0 0 0\<rparr>"]
    camera_follow_modes [of
      "fst (handleKeyDown ShiftLeft
         (initialControls, getShipExhaust shipExhaustConfig 2 (\<lambda>_. 1 / 2)))"
      "\<lambda>i. if i = 0 \<or> i = 5 \<or> i = 10 \<or> i = 15 then 1 else 0" "vec 0 0 0"
      "\<lparr>cameraPosition = vec 0 0 500, cameraLookAt = vec 0 0 0\<rparr>"]
  by (simp add: initialControls_def applyMatrix4_def cameraOffset_def lerp_def vec_def)

end
